theory Spec2Isabelle
  imports Main
begin

section \<open>The test-environment bootstrapper \<open>frontend/src/setupTests.js\<close>\<close>

text \<open>
  The module has no exported function: its body runs when the module is loaded.
  \<^verbatim>\<open>
  import '@testing-library/jest-dom';

  if (typeof global.clearImmediate === 'undefined') {
    global.clearImmediate = function(id) {
      clearTimeout(id);
    };
  }

  if (typeof global.setImmediate === 'undefined') {
    global.setImmediate = function(fn) {
      return setTimeout(fn, 0);
    };
  }
  \<close>
  The embedding is a state-passing one. A process state holds the properties of the
  global object and which of them cannot be assigned, the function objects allocated so
  far, the host's timer table, the matcher registry of the assertion library and the
  packages the module resolver can find. Loading the module is a function from process
  states to a new process state, or to the error thrown together with the process state
  at the throw.

  The module runs under Node (a Jest test environment), where \<open>global\<close> is the global
  object. The file has an \<open>import\<close> declaration, so it is a module and its code is
  strict: an assignment to a property that is not writable throws a \<open>TypeError\<close>.
  The identifiers \<open>setTimeout\<close> and \<open>clearTimeout\<close> are free in the module and
  denote the host's timer primitives.
\<close>

subsection \<open>Values\<close>

text \<open>
  JavaScript values, as far as the module can tell them apart. A function value is a
  reference into the table of function objects, so two evaluations of the same function
  expression give two different values. A timer handle is what the host's
  \<open>setTimeout\<close> returns (a \<open>Timeout\<close> object under Node).
\<close>

datatype val =
    VUndefined
  | VNull
  | VBoolean bool
  | VNumber int
  | VString string
  | VFunction nat
  | VTimer nat

fun typeof :: "val \<Rightarrow> string" where
  "typeof VUndefined = ''undefined''"
| "typeof VNull = ''object''"
| "typeof (VBoolean b) = ''boolean''"
| "typeof (VNumber n) = ''number''"
| "typeof (VString s) = ''string''"
| "typeof (VFunction r) = ''function''"
| "typeof (VTimer h) = ''object''"

text \<open>
  The body of a function object. The module creates two kinds of closure; every other
  function object of the process (a native \<open>setImmediate\<close>, a test's callback) has a
  body outside this file and is \<open>External\<close>.
\<close>

datatype body = ClearImmediateShim | SetImmediateShim | External

datatype status = Pending | Cancelled | Fired

record timer =
  callback :: val
  delay :: val
  args :: "val list"
  status :: status

datatype error =
    CannotFindModule string
  | ReadOnlyProperty string
  | NotAFunction val
  | ExternalCode nat

text \<open>
  The process state. \<open>read_only\<close> holds the names of the global object's properties
  that an assignment cannot write: data properties that are not writable and accessors
  without a setter.
\<close>

record proc =
  globals :: "string \<rightharpoonup> val"
  read_only :: "string set"
  funs :: "body list"
  timers :: "timer list"
  matchers :: "string \<rightharpoonup> nat"
  node_modules :: "string \<rightharpoonup> (string \<rightharpoonup> nat)"

text \<open>The three states of a timer of the host's table, read by its handle.\<close>

definition pending :: "proc \<Rightarrow> nat \<Rightarrow> bool" where
  "pending s h = (h < length (timers s) \<and> status (timers s ! h) = Pending)"

definition cancelled :: "proc \<Rightarrow> nat \<Rightarrow> bool" where
  "cancelled s h = (h < length (timers s) \<and> status (timers s ! h) = Cancelled)"

text \<open>The callback of timer \<open>h\<close> has been run.\<close>

definition ran :: "proc \<Rightarrow> nat \<Rightarrow> bool" where
  "ran s h = (h < length (timers s) \<and> status (timers s ! h) = Fired)"

text \<open>A parameter the caller did not pass reads as \<open>undefined\<close>.\<close>

definition nth_arg :: "nat \<Rightarrow> val list \<Rightarrow> val" where
  "nth_arg i as = (if i < length as then as ! i else VUndefined)"

subsection \<open>The host's timers\<close>

text \<open>
  Modelled from the spec: the platform's timeout-scheduling primitive \<open>setTimeout\<close>
  is not code of the repository. It registers the callback, the delay and the extra
  arguments as a new pending timer and returns the new timer's handle; it does not run
  the callback. The handle is the timer's index in the table, so it is fresh.
\<close>

definition setTimeout :: "val list \<Rightarrow> proc \<Rightarrow> val \<times> proc" where
  "setTimeout as s =
     (VTimer (length (timers s)),
      s\<lparr>timers := timers s @
         [\<lparr>callback = nth_arg 0 as, delay = nth_arg 1 as, args = drop 2 as,
           status = Pending\<rparr>]\<rparr>)"

text \<open>
  Modelled from the spec: the platform's timeout-cancellation primitive
  \<open>clearTimeout\<close> is not code of the repository. It cancels the timer its argument
  is the handle of when that timer is still pending, does nothing otherwise, and returns
  \<open>undefined\<close>.
\<close>

definition clearTimeout :: "val list \<Rightarrow> proc \<Rightarrow> val \<times> proc" where
  "clearTimeout as s =
     (VUndefined,
      case nth_arg 0 as of
        VTimer h \<Rightarrow>
          if pending s h
          then s\<lparr>timers := (timers s)[h := (timers s ! h)\<lparr>status := Cancelled\<rparr>]\<rparr>
          else s
      | _ \<Rightarrow> s)"

subsection \<open>The two closures of the module\<close>

text \<open>
  \<^verbatim>\<open>function(id) { clearTimeout(id); }\<close>: one parameter, the host's
  \<open>clearTimeout\<close> called with it alone, no \<open>return\<close> statement.
\<close>

definition clearImmediate_shim :: "val list \<Rightarrow> proc \<Rightarrow> val \<times> proc" where
  "clearImmediate_shim as s =
     (let id = nth_arg 0 as;
          (r, s') = clearTimeout [id] s
      in (VUndefined, s'))"

text \<open>
  \<^verbatim>\<open>function(fn) { return setTimeout(fn, 0); }\<close>: one parameter, the host's
  \<open>setTimeout\<close> called with it and the number zero, its result returned.
\<close>

definition setImmediate_shim :: "val list \<Rightarrow> proc \<Rightarrow> val \<times> proc" where
  "setImmediate_shim as s =
     (let fn = nth_arg 0 as
      in setTimeout [fn, VNumber 0] s)"

text \<open>
  Calling a value. A value that is no function object raises a \<open>TypeError\<close>; a call
  of an external function leaves the code of this file, and the model stops there.
\<close>

definition call_function :: "val \<Rightarrow> val list \<Rightarrow> proc \<Rightarrow> error + val \<times> proc" where
  "call_function f as s =
     (case f of
        VFunction r \<Rightarrow>
          if r < length (funs s)
          then (case funs s ! r of
                  ClearImmediateShim \<Rightarrow> Inr (clearImmediate_shim as s)
                | SetImmediateShim \<Rightarrow> Inr (setImmediate_shim as s)
                | External \<Rightarrow> Inl (ExternalCode r))
          else Inl (NotAFunction f)
      | _ \<Rightarrow> Inl (NotAFunction f))"

subsection \<open>The global object\<close>

text \<open>\<open>global.name\<close>: a property the global object does not have reads as \<open>undefined\<close>.\<close>

definition global_get :: "proc \<Rightarrow> string \<Rightarrow> val" where
  "global_get s name = (case globals s name of None \<Rightarrow> VUndefined | Some v \<Rightarrow> v)"

text \<open>
  \<open>global.name = v\<close> in strict code: a \<open>TypeError\<close> when the property cannot be
  written, the new binding otherwise. An error comes with the state at the throw.
\<close>

definition global_set :: "string \<Rightarrow> val \<Rightarrow> proc \<Rightarrow> error \<times> proc + proc" where
  "global_set name v s =
     (if name \<in> read_only s then Inl (ReadOnlyProperty name, s)
      else Inr (s\<lparr>globals := (globals s)(name \<mapsto> v)\<rparr>))"

text \<open>A function expression allocates a new function object and evaluates to its reference.\<close>

definition new_function :: "body \<Rightarrow> proc \<Rightarrow> val \<times> proc" where
  "new_function b s = (VFunction (length (funs s)), s\<lparr>funs := funs s @ [b]\<rparr>)"

text \<open>\<open>name(args)\<close> for a name bound on the global object.\<close>

definition call_global :: "string \<Rightarrow> val list \<Rightarrow> proc \<Rightarrow> error + val \<times> proc" where
  "call_global name as s = call_function (global_get s name) as s"

subsection \<open>The module body\<close>

definition jest_dom :: string where
  "jest_dom = ''@testing-library/jest-dom''"

text \<open>
  Modelled from the spec: the package \<open>@testing-library/jest-dom\<close> is not code of the
  repository. Its sole effect is to register its matcher predicates in the registry of
  the assertion library; when the resolver cannot find the package the import fails.
\<close>

definition import_jest_dom :: "proc \<Rightarrow> error \<times> proc + proc" where
  "import_jest_dom s =
     (case node_modules s jest_dom of
        None \<Rightarrow> Inl (CannotFindModule jest_dom, s)
      | Some ms \<Rightarrow> Inr (s\<lparr>matchers := matchers s ++ ms\<rparr>))"

text \<open>Lines 8 to 12: the guard and the assignment of \<open>global.clearImmediate\<close>.\<close>

definition install_clearImmediate :: "proc \<Rightarrow> error \<times> proc + proc" where
  "install_clearImmediate s =
     (if typeof (global_get s ''clearImmediate'') = ''undefined''
      then (let (f, s') = new_function ClearImmediateShim s
            in global_set ''clearImmediate'' f s')
      else Inr s)"

text \<open>Lines 14 to 18: the guard and the assignment of \<open>global.setImmediate\<close>.\<close>

definition install_setImmediate :: "proc \<Rightarrow> error \<times> proc + proc" where
  "install_setImmediate s =
     (if typeof (global_get s ''setImmediate'') = ''undefined''
      then (let (f, s') = new_function SetImmediateShim s
            in global_set ''setImmediate'' f s')
      else Inr s)"

text \<open>
  Loading the module: the import, then the two guarded assignments. Nothing catches an
  error: the first statement that throws ends the load, with the state as it is then.
\<close>

definition setupTests :: "proc \<Rightarrow> error \<times> proc + proc" where
  "setupTests s =
     (case import_jest_dom s of
        Inl x \<Rightarrow> Inl x
      | Inr s1 \<Rightarrow>
          (case install_clearImmediate s1 of
             Inl x \<Rightarrow> Inl x
           | Inr s2 \<Rightarrow> install_setImmediate s2))"

subsection \<open>The event loop\<close>

text \<open>
  Modelled from the spec: the host's event loop is not code of the repository. A turn of
  the loop takes one pending timer, marks it fired and calls its callback with the
  timer's extra arguments. What an external callback does is outside this file; a
  callback that is one of the module's closures runs as defined above.
\<close>

definition run_callback :: "val \<Rightarrow> val list \<Rightarrow> proc \<Rightarrow> proc" where
  "run_callback f as s = (case call_function f as s of Inl e \<Rightarrow> s | Inr (r, s') \<Rightarrow> s')"

definition fire :: "nat \<Rightarrow> proc \<Rightarrow> proc" where
  "fire h s =
     (if pending s h
      then (let t = timers s ! h
            in run_callback (callback t) (args t)
                 (s\<lparr>timers := (timers s)[h := t\<lparr>status := Fired\<rparr>]\<rparr>))
      else s)"

text \<open>
  What can happen in the process after a call: a turn of the event loop on some timer,
  or any code calling the host's timer primitives (external callbacks included). Which
  pending timer a turn takes is left open, so every schedule of the host is covered.
\<close>

datatype event = Turn nat | SetTimeout "val list" | ClearTimeout "val list"

fun step :: "event \<Rightarrow> proc \<Rightarrow> proc" where
  "step (Turn h) s = fire h s"
| "step (SetTimeout as) s = snd (setTimeout as s)"
| "step (ClearTimeout as) s = snd (clearTimeout as s)"

fun run :: "event list \<Rightarrow> proc \<Rightarrow> proc" where
  "run [] s = s"
| "run (e # es) s = run es (step e s)"

subsection \<open>Process states to evaluate on\<close>

text \<open>
  A process whose global object has neither timer global (a browser-like test
  environment), with the package installed. Function object 0 is a test's callback.
\<close>

definition bare_process :: proc where
  "bare_process =
     \<lparr>globals = Map.empty, read_only = {}, funs = [External], timers = [],
      matchers = Map.empty,
      node_modules = [jest_dom \<mapsto> [''toHaveTextContent'' \<mapsto> 0]]\<rparr>"

text \<open>The same process once the module has been loaded.\<close>

definition bare_loaded :: proc where
  "bare_loaded =
     \<lparr>globals = [''clearImmediate'' \<mapsto> VFunction 1, ''setImmediate'' \<mapsto> VFunction 2],
      read_only = {},
      funs = [External, ClearImmediateShim, SetImmediateShim], timers = [],
      matchers = [''toHaveTextContent'' \<mapsto> 0],
      node_modules = [jest_dom \<mapsto> [''toHaveTextContent'' \<mapsto> 0]]\<rparr>"

text \<open>
  A process whose host provides both globals natively (function objects 0 and 1), with
  the package installed, and the same process once the module has been loaded.
\<close>

definition native_process :: proc where
  "native_process =
     \<lparr>globals = [''setImmediate'' \<mapsto> VFunction 0, ''clearImmediate'' \<mapsto> VFunction 1],
      read_only = {},
      funs = [External, External], timers = [], matchers = Map.empty,
      node_modules = [jest_dom \<mapsto> [''toHaveTextContent'' \<mapsto> 0]]\<rparr>"

definition native_loaded :: proc where
  "native_loaded =
     \<lparr>globals = [''setImmediate'' \<mapsto> VFunction 0, ''clearImmediate'' \<mapsto> VFunction 1],
      read_only = {},
      funs = [External, External], timers = [],
      matchers = [''toHaveTextContent'' \<mapsto> 0],
      node_modules = [jest_dom \<mapsto> [''toHaveTextContent'' \<mapsto> 0]]\<rparr>"

text \<open>A process in which the package is not installed.\<close>

definition unprovisioned_process :: proc where
  "unprovisioned_process =
     \<lparr>globals = Map.empty, read_only = {}, funs = [External], timers = [],
      matchers = Map.empty, node_modules = Map.empty\<rparr>"

text \<open>
  A process whose \<open>clearImmediate\<close> is bound to \<open>null\<close> and whose \<open>setImmediate\<close>
  is undefined; the same process once the module has been loaded; and that one once
  \<open>setImmediate\<close> has been called with the test's callback.
\<close>

definition null_clear_process :: proc where
  "null_clear_process =
     \<lparr>globals = [''clearImmediate'' \<mapsto> VNull], read_only = {}, funs = [External],
      timers = [], matchers = Map.empty,
      node_modules = [jest_dom \<mapsto> [''toHaveTextContent'' \<mapsto> 0]]\<rparr>"

definition null_clear_loaded :: proc where
  "null_clear_loaded =
     \<lparr>globals = [''clearImmediate'' \<mapsto> VNull, ''setImmediate'' \<mapsto> VFunction 1],
      read_only = {}, funs = [External, SetImmediateShim], timers = [],
      matchers = [''toHaveTextContent'' \<mapsto> 0],
      node_modules = [jest_dom \<mapsto> [''toHaveTextContent'' \<mapsto> 0]]\<rparr>"

definition null_clear_scheduled :: proc where
  "null_clear_scheduled =
     null_clear_loaded\<lparr>timers :=
       [\<lparr>callback = VFunction 0, delay = VNumber 0, args = [], status = Pending\<rparr>]\<rparr>"

text \<open>
  A process with the package installed whose \<open>setImmediate\<close> reads as undefined and
  cannot be assigned (an accessor with a getter only), and the state in which a load of
  the module ends there: the matchers registered, \<open>clearImmediate\<close> installed, the
  closure for \<open>setImmediate\<close> allocated and bound to nothing.
\<close>

definition locked_process :: proc where
  "locked_process =
     \<lparr>globals = Map.empty, read_only = {''setImmediate''}, funs = [External],
      timers = [], matchers = Map.empty,
      node_modules = [jest_dom \<mapsto> [''toHaveTextContent'' \<mapsto> 0]]\<rparr>"

definition locked_aborted :: proc where
  "locked_aborted =
     \<lparr>globals = [''clearImmediate'' \<mapsto> VFunction 1], read_only = {''setImmediate''},
      funs = [External, ClearImmediateShim, SetImmediateShim], timers = [],
      matchers = [''toHaveTextContent'' \<mapsto> 0],
      node_modules = [jest_dom \<mapsto> [''toHaveTextContent'' \<mapsto> 0]]\<rparr>"

section \<open>Properties\<close>

subsection \<open>The module body, step by step\<close>

lemma typeof_undefined_iff: "typeof v = ''undefined'' \<longleftrightarrow> v = VUndefined"
  by (cases v) simp_all

lemma import_jest_dom_Inr:
  "import_jest_dom s = Inr s1 \<longleftrightarrow>
     (\<exists>ms. node_modules s jest_dom = Some ms \<and> s1 = s\<lparr>matchers := matchers s ++ ms\<rparr>)"
  by (auto simp: import_jest_dom_def split: option.splits)

lemma import_jest_dom_Inl:
  "import_jest_dom s = Inl x \<longleftrightarrow>
     node_modules s jest_dom = None \<and> x = (CannotFindModule jest_dom, s)"
  by (auto simp: import_jest_dom_def split: option.splits)

lemma import_jest_dom_frame:
  assumes "import_jest_dom s = Inr s1"
  shows "globals s1 = globals s" and "funs s1 = funs s" and "timers s1 = timers s"
    and "node_modules s1 = node_modules s" and "global_get s1 k = global_get s k"
    and "read_only s1 = read_only s"
  using assms by (auto simp: import_jest_dom_Inr global_get_def)

lemma setupTests_Inr:
  "setupTests s = Inr s' \<longleftrightarrow>
     (\<exists>s1 s2. import_jest_dom s = Inr s1 \<and> install_clearImmediate s1 = Inr s2 \<and>
        install_setImmediate s2 = Inr s')"
  by (auto simp: setupTests_def split: sum.splits)

lemma install_clearImmediate_eq:
  "install_clearImmediate s =
     (if global_get s ''clearImmediate'' = VUndefined
      then (if ''clearImmediate'' \<in> read_only s
            then Inl (ReadOnlyProperty ''clearImmediate'',
                      s\<lparr>funs := funs s @ [ClearImmediateShim]\<rparr>)
            else Inr (s\<lparr>funs := funs s @ [ClearImmediateShim],
                       globals := (globals s)(''clearImmediate'' \<mapsto> VFunction (length (funs s)))\<rparr>))
      else Inr s)"
  by (simp add: install_clearImmediate_def typeof_undefined_iff new_function_def global_set_def)

lemma install_setImmediate_eq:
  "install_setImmediate s =
     (if global_get s ''setImmediate'' = VUndefined
      then (if ''setImmediate'' \<in> read_only s
            then Inl (ReadOnlyProperty ''setImmediate'',
                      s\<lparr>funs := funs s @ [SetImmediateShim]\<rparr>)
            else Inr (s\<lparr>funs := funs s @ [SetImmediateShim],
                       globals := (globals s)(''setImmediate'' \<mapsto> VFunction (length (funs s)))\<rparr>))
      else Inr s)"
  by (simp add: install_setImmediate_def typeof_undefined_iff new_function_def global_set_def)

lemma install_clearImmediate_Inr:
  assumes "install_clearImmediate s = Inr s2"
  shows "s2 = (if global_get s ''clearImmediate'' = VUndefined
               then s\<lparr>funs := funs s @ [ClearImmediateShim],
                      globals := (globals s)(''clearImmediate'' \<mapsto> VFunction (length (funs s)))\<rparr>
               else s)"
  using assms by (simp add: install_clearImmediate_eq split: if_splits)

lemma install_setImmediate_Inr:
  assumes "install_setImmediate s = Inr s2"
  shows "s2 = (if global_get s ''setImmediate'' = VUndefined
               then s\<lparr>funs := funs s @ [SetImmediateShim],
                      globals := (globals s)(''setImmediate'' \<mapsto> VFunction (length (funs s)))\<rparr>
               else s)"
  using assms by (simp add: install_setImmediate_eq split: if_splits)

lemma install_clearImmediate_get:
  "install_clearImmediate s = Inr s2 \<Longrightarrow>
   global_get s2 k =
     (if k = ''clearImmediate'' \<and> global_get s k = VUndefined then VFunction (length (funs s))
      else global_get s k)"
  by (auto simp: global_get_def dest!: install_clearImmediate_Inr)

lemma install_setImmediate_get:
  "install_setImmediate s = Inr s2 \<Longrightarrow>
   global_get s2 k =
     (if k = ''setImmediate'' \<and> global_get s k = VUndefined then VFunction (length (funs s))
      else global_get s k)"
  by (auto simp: global_get_def dest!: install_setImmediate_Inr)

lemma install_clearImmediate_funs:
  "install_clearImmediate s = Inr s2 \<Longrightarrow>
   funs s2 =
     funs s @ (if global_get s ''clearImmediate'' = VUndefined then [ClearImmediateShim] else [])"
  by (auto dest!: install_clearImmediate_Inr)

lemma install_setImmediate_funs:
  "install_setImmediate s = Inr s2 \<Longrightarrow>
   funs s2 =
     funs s @ (if global_get s ''setImmediate'' = VUndefined then [SetImmediateShim] else [])"
  by (auto dest!: install_setImmediate_Inr)

lemma install_clearImmediate_frame:
  assumes "install_clearImmediate s = Inr s2"
  shows "matchers s2 = matchers s" and "node_modules s2 = node_modules s"
    and "timers s2 = timers s" and "read_only s2 = read_only s"
  using install_clearImmediate_Inr [OF assms] by (simp_all split: if_splits)

lemma install_setImmediate_frame:
  assumes "install_setImmediate s = Inr s2"
  shows "matchers s2 = matchers s" and "node_modules s2 = node_modules s"
    and "timers s2 = timers s" and "read_only s2 = read_only s"
  using install_setImmediate_Inr [OF assms] by (simp_all split: if_splits)

subsection \<open>The closures and the host's primitives\<close>

lemma setImmediate_shim_eq: "setImmediate_shim as s = setTimeout [nth_arg 0 as, VNumber 0] s"
  by (simp add: setImmediate_shim_def)

lemma clearImmediate_shim_eq:
  "clearImmediate_shim as s = (VUndefined, snd (clearTimeout [nth_arg 0 as] s))"
  by (simp add: clearImmediate_shim_def split: prod.splits)

lemma clearTimeout_fst: "fst (clearTimeout as s) = VUndefined"
  by (simp add: clearTimeout_def)

lemma setTimeout_frame:
  "globals (snd (setTimeout as s)) = globals s \<and> funs (snd (setTimeout as s)) = funs s"
  by (simp add: setTimeout_def)

lemma clearTimeout_frame:
  "globals (snd (clearTimeout as s)) = globals s \<and> funs (snd (clearTimeout as s)) = funs s"
  by (simp add: clearTimeout_def split: val.splits)

lemma call_function_cases:
  assumes "call_function f as s = Inr (r, s')"
  shows "s' = snd (setTimeout [nth_arg 0 as, VNumber 0] s) \<or>
         s' = snd (clearTimeout [nth_arg 0 as] s)"
proof (cases f)
  case (VFunction n)
  show ?thesis
  proof (cases "funs s ! n")
    case ClearImmediateShim
    with assms VFunction show ?thesis
      by (simp add: call_function_def clearImmediate_shim_eq split: if_splits)
  next
    case SetImmediateShim
    with assms VFunction show ?thesis
      by (auto simp add: call_function_def setImmediate_shim_eq split: if_splits)
  next
    case External
    with assms VFunction show ?thesis
      by (simp add: call_function_def split: if_splits)
  qed
qed (use assms in \<open>simp_all add: call_function_def\<close>)

lemma run_callback_cases:
  "run_callback f as s = s \<or>
   run_callback f as s = snd (setTimeout [nth_arg 0 as, VNumber 0] s) \<or>
   run_callback f as s = snd (clearTimeout [nth_arg 0 as] s)"
proof (cases "call_function f as s")
  case (Inl e)
  then show ?thesis by (simp add: run_callback_def)
next
  case (Inr p)
  obtain r s' where p: "p = (r, s')" by (cases p)
  from Inr p have "run_callback f as s = s'" by (simp add: run_callback_def)
  with call_function_cases [of f as s r s'] Inr p show ?thesis by simp
qed

subsection \<open>The event loop leaves the global object and the function objects alone\<close>

lemma run_callback_frame:
  "globals (run_callback f as s) = globals s \<and> funs (run_callback f as s) = funs s"
  using run_callback_cases [of f as s] setTimeout_frame clearTimeout_frame by metis

lemma fire_frame: "globals (fire h s) = globals s \<and> funs (fire h s) = funs s"
  by (simp add: fire_def Let_def run_callback_frame)

lemma step_frame: "globals (step e s) = globals s \<and> funs (step e s) = funs s"
  by (cases e) (simp_all add: fire_frame setTimeout_frame clearTimeout_frame)

lemma run_frame: "globals (run es s) = globals s \<and> funs (run es s) = funs s"
  by (induction es arbitrary: s) (simp_all add: step_frame)

lemma run_global_get: "global_get (run es s) k = global_get s k"
  by (simp add: global_get_def run_frame)

subsection \<open>Which timers have run, which are cancelled\<close>

lemma clearTimeout_length: "length (timers (snd (clearTimeout as s))) = length (timers s)"
  by (simp add: clearTimeout_def split: val.splits)

lemma clearTimeout_status:
  "k < length (timers s) \<Longrightarrow>
   status (timers (snd (clearTimeout as s)) ! k) =
     (if nth_arg 0 as = VTimer k \<and> status (timers s ! k) = Pending then Cancelled
      else status (timers s ! k))"
  by (simp add: clearTimeout_def pending_def nth_list_update split: val.splits)

lemma setTimeout_ran: "ran (snd (setTimeout as s)) k = ran s k"
  by (auto simp: ran_def setTimeout_def nth_append)

lemma clearTimeout_ran: "ran (snd (clearTimeout as s)) k = ran s k"
proof (cases "k < length (timers s)")
  case True
  then show ?thesis
    by (simp add: ran_def clearTimeout_length clearTimeout_status)
next
  case False
  then show ?thesis
    by (simp add: ran_def clearTimeout_length)
qed

lemma run_callback_ran: "ran (run_callback f as s) k = ran s k"
  using run_callback_cases [of f as s] setTimeout_ran clearTimeout_ran by metis

lemma fire_ran: "ran (fire h s) k = (ran s k \<or> (k = h \<and> pending s h))"
proof (cases "pending s h")
  case True
  then have "ran (fire h s) k =
      ran (s\<lparr>timers := (timers s)[h := (timers s ! h)\<lparr>status := Fired\<rparr>]\<rparr>) k"
    by (simp add: fire_def Let_def run_callback_ran)
  also have "\<dots> = (ran s k \<or> k = h)"
    using True by (auto simp: ran_def pending_def nth_list_update)
  finally show ?thesis using True by simp
next
  case False
  then show ?thesis by (simp add: fire_def)
qed

lemma step_ran: "ran (step e s) k \<Longrightarrow> ran s k \<or> e = Turn k"
  by (cases e) (auto simp: fire_ran setTimeout_ran clearTimeout_ran)

lemma run_ran: "ran (run es s) k \<Longrightarrow> ran s k \<or> Turn k \<in> set es"
proof (induction es arbitrary: s)
  case Nil
  then show ?case by simp
next
  case (Cons e es)
  from Cons.prems have "ran (run es (step e s)) k" by simp
  then have "ran (step e s) k \<or> Turn k \<in> set es" by (rule Cons.IH)
  then show ?case using step_ran [of e s k] by auto
qed

lemma setTimeout_cancelled: "cancelled s k \<Longrightarrow> cancelled (snd (setTimeout as s)) k"
  by (auto simp: cancelled_def setTimeout_def nth_append)

lemma clearTimeout_cancelled: "cancelled s k \<Longrightarrow> cancelled (snd (clearTimeout as s)) k"
  by (simp add: cancelled_def clearTimeout_length clearTimeout_status)

lemma run_callback_cancelled: "cancelled s k \<Longrightarrow> cancelled (run_callback f as s) k"
  using run_callback_cases [of f as s] setTimeout_cancelled clearTimeout_cancelled by metis

lemma fire_cancelled:
  assumes "cancelled s k"
  shows "cancelled (fire h s) k"
proof (cases "pending s h")
  case True
  with assms have "h \<noteq> k" by (auto simp: pending_def cancelled_def)
  with assms have "cancelled (s\<lparr>timers := (timers s)[h := (timers s ! h)\<lparr>status := Fired\<rparr>]\<rparr>) k"
    by (simp add: cancelled_def)
  then show ?thesis using True
    by (simp add: fire_def Let_def run_callback_cancelled)
next
  case False
  with assms show ?thesis by (simp add: fire_def)
qed

lemma step_cancelled: "cancelled s k \<Longrightarrow> cancelled (step e s) k"
  by (cases e) (simp_all add: fire_cancelled setTimeout_cancelled clearTimeout_cancelled)

lemma run_cancelled: "cancelled s k \<Longrightarrow> cancelled (run es s) k"
  by (induction es arbitrary: s) (simp_all add: step_cancelled)

lemma cancelled_not_ran: "cancelled s k \<Longrightarrow> \<not> ran s k"
  by (simp add: cancelled_def ran_def)

subsection \<open>What a load installs\<close>

lemma setupTests_setImmediate_shim:
  assumes "typeof (global_get s ''setImmediate'') = ''undefined''" and "setupTests s = Inr s'"
  shows "\<exists>r. global_get s' ''setImmediate'' = VFunction r \<and> r < length (funs s') \<and>
           funs s' ! r = SetImmediateShim"
proof -
  from assms(2) obtain s1 s2 where s1: "import_jest_dom s = Inr s1"
    and s2: "install_clearImmediate s1 = Inr s2" and s': "install_setImmediate s2 = Inr s'"
    by (auto simp: setupTests_Inr)
  have u: "global_get s2 ''setImmediate'' = VUndefined"
    using assms(1)
    by (simp add: install_clearImmediate_get [OF s2] import_jest_dom_frame [OF s1]
        typeof_undefined_iff)
  show ?thesis
    by (simp add: install_setImmediate_get [OF s'] install_setImmediate_funs [OF s'] u)
qed

lemma setupTests_clearImmediate_shim:
  assumes "typeof (global_get s ''clearImmediate'') = ''undefined''" and "setupTests s = Inr s'"
  shows "\<exists>r. global_get s' ''clearImmediate'' = VFunction r \<and> r < length (funs s') \<and>
           funs s' ! r = ClearImmediateShim"
proof -
  from assms(2) obtain s1 s2 where s1: "import_jest_dom s = Inr s1"
    and s2: "install_clearImmediate s1 = Inr s2" and s': "install_setImmediate s2 = Inr s'"
    by (auto simp: setupTests_Inr)
  have u: "global_get s1 ''clearImmediate'' = VUndefined"
    using assms(1) by (simp add: import_jest_dom_frame [OF s1] typeof_undefined_iff)
  show ?thesis
    by (simp add: install_setImmediate_get [OF s'] install_setImmediate_funs [OF s']
        install_clearImmediate_get [OF s2] install_clearImmediate_funs [OF s2] u nth_append)
qed

lemma call_global_run:
  "call_global name as (run es s) = call_function (global_get s name) as (run es s)"
  by (simp add: call_global_def run_global_get)

lemma call_SetImmediateShim:
  "r < length (funs s) \<Longrightarrow> funs s ! r = SetImmediateShim \<Longrightarrow>
   call_function (VFunction r) as (run es s) =
     Inr (setTimeout [nth_arg 0 as, VNumber 0] (run es s))"
  by (simp add: call_function_def run_frame setImmediate_shim_eq)

lemma call_ClearImmediateShim:
  "r < length (funs s) \<Longrightarrow> funs s ! r = ClearImmediateShim \<Longrightarrow>
   call_function (VFunction r) as (run es s) =
     Inr (VUndefined, snd (clearTimeout [nth_arg 0 as] (run es s)))"
  by (simp add: call_function_def run_frame clearImmediate_shim_eq)

subsection \<open>A load on a process that has both globals\<close>

lemma install_clearImmediate_noop:
  "global_get s ''clearImmediate'' \<noteq> VUndefined \<Longrightarrow> install_clearImmediate s = Inr s"
  by (simp add: install_clearImmediate_eq)

lemma install_setImmediate_noop:
  "global_get s ''setImmediate'' \<noteq> VUndefined \<Longrightarrow> install_setImmediate s = Inr s"
  by (simp add: install_setImmediate_eq)

lemma map_add_twice: "(m ++ n) ++ n = m ++ n"
  by (rule ext) (simp add: map_add_def split: option.splits)




subsection \<open>Calls of the installed globals\<close>

lemma run_append: "run (es @ es') s = run es' (run es s)"
  by (induction es arbitrary: s) simp_all

lemma run_snoc_SetTimeout: "snd (setTimeout as (run es s)) = run (es @ [SetTimeout as]) s"
  by (simp add: run_append)

lemma call_setImmediate_loaded:
  assumes "typeof (global_get s ''setImmediate'') = ''undefined''" and "setupTests s = Inr s'"
  shows "call_global ''setImmediate'' as (run es s') =
           Inr (setTimeout [nth_arg 0 as, VNumber 0] (run es s'))"
  using setupTests_setImmediate_shim [OF assms]
  by (auto simp: call_global_run call_SetImmediateShim)

lemma call_clearImmediate_loaded:
  assumes "typeof (global_get s ''clearImmediate'') = ''undefined''" and "setupTests s = Inr s'"
  shows "call_global ''clearImmediate'' as (run es s') =
           Inr (VUndefined, snd (clearTimeout [nth_arg 0 as] (run es s')))"
  using setupTests_clearImmediate_shim [OF assms]
  by (auto simp: call_global_run call_ClearImmediateShim)

lemma setTimeout_fst: "fst (setTimeout as s) = VTimer (length (timers s))"
  by (simp add: setTimeout_def)

lemma setTimeout_new_timer:
  "timers (snd (setTimeout as s)) ! length (timers s) =
     \<lparr>callback = nth_arg 0 as, delay = nth_arg 1 as, args = drop 2 as, status = Pending\<rparr>"
  by (simp add: setTimeout_def)

lemma setTimeout_pending: "pending (snd (setTimeout as s)) (length (timers s))"
  by (simp add: setTimeout_def pending_def)

lemma clearTimeout_pending_cancelled:
  "pending s h \<Longrightarrow> cancelled (snd (clearTimeout (VTimer h # as) s)) h"
  by (simp add: clearTimeout_def nth_arg_def cancelled_def pending_def)

lemma setTimeout_not_ran_new: "\<not> ran (snd (setTimeout as s)) (length (timers s))"
  by (simp add: setTimeout_def ran_def)

lemma fire_pending_ran: "pending s h \<Longrightarrow> ran (fire h s) h"
  by (simp add: fire_ran)

lemma setTimeout_keeps_extra_arguments:
  "args (timers (snd (setTimeout (f # d # extra) s)) ! length (timers s)) = extra"
  by (simp add: setTimeout_def)

subsection \<open>The example processes\<close>

lemma bare_undefined:
  "typeof (global_get bare_process ''setImmediate'') = ''undefined''"
  "typeof (global_get bare_process ''clearImmediate'') = ''undefined''"
  by (simp_all add: bare_process_def global_get_def)

lemma setupTests_bare: "setupTests bare_process = Inr bare_loaded"
  by (simp add: setupTests_def import_jest_dom_def install_setImmediate_eq
      install_clearImmediate_eq bare_process_def bare_loaded_def global_get_def numeral_2_eq_2)

lemma native_defined:
  "typeof (global_get native_process ''setImmediate'') = ''function''"
  "typeof (global_get native_process ''clearImmediate'') = ''function''"
  by (simp_all add: native_process_def global_get_def)

lemma setupTests_native: "setupTests native_process = Inr native_loaded"
  by (simp add: setupTests_def import_jest_dom_def install_setImmediate_eq
      install_clearImmediate_eq native_process_def native_loaded_def global_get_def)

lemma bare_loaded_timers:
  "length (timers (run [] bare_loaded)) = 0" "length (timers bare_loaded) = 0"
  by (simp_all add: bare_loaded_def)

lemma setupTests_locked:
  "setupTests locked_process = Inl (ReadOnlyProperty ''setImmediate'', locked_aborted)"
  by (simp add: setupTests_def import_jest_dom_def install_setImmediate_eq
      install_clearImmediate_eq locked_process_def locked_aborted_def global_get_def)

lemma setupTests_null_clear: "setupTests null_clear_process = Inr null_clear_loaded"
  by (simp add: setupTests_def import_jest_dom_def install_setImmediate_eq
      install_clearImmediate_eq null_clear_process_def null_clear_loaded_def global_get_def)

section \<open>The claims\<close>

text \<open>
  C1. In a process whose global \<open>setImmediate\<close> is undefined, once the module has
  loaded, a call \<open>setImmediate(f)\<close> (at any later moment \<open>run es s'\<close> of the process)
  is the host's \<open>setTimeout\<close> called with \<open>f\<close> and the delay zero: the same handle is
  returned and the same state results.
\<close>

theorem setImmediate_forwards_to_setTimeout:
  assumes "typeof (global_get s ''setImmediate'') = ''undefined''" and "setupTests s = Inr s'"
  shows "call_global ''setImmediate'' [f] (run es s') =
           Inr (setTimeout [f, VNumber 0] (run es s'))"
  using setupTests_setImmediate_shim [OF assms]
  by (auto simp: call_global_run call_SetImmediateShim nth_arg_def)

theorem setImmediate_forwards_to_setTimeout_witness:
  "typeof (global_get bare_process ''setImmediate'') = ''undefined'' \<and>
   setupTests bare_process = Inr bare_loaded \<and>
   call_global ''setImmediate'' [VFunction 0] bare_loaded =
     Inr (VTimer 0, bare_loaded\<lparr>timers :=
       [\<lparr>callback = VFunction 0, delay = VNumber 0, args = [], status = Pending\<rparr>]\<rparr>)"
  using setImmediate_forwards_to_setTimeout
      [OF bare_undefined(1) setupTests_bare, of "VFunction 0" "[]"]
    bare_undefined(1) setupTests_bare
  by (simp add: setTimeout_def nth_arg_def bare_loaded_def)

text \<open>
  C2. In a process whose global \<open>clearImmediate\<close> is undefined, once the module has
  loaded, a call \<open>clearImmediate(h)\<close> with any value \<open>h\<close> has the result and the
  effect of the host's \<open>clearTimeout\<close> called with \<open>h\<close>.
\<close>

theorem clearImmediate_same_as_clearTimeout:
  assumes "typeof (global_get s ''clearImmediate'') = ''undefined''" and "setupTests s = Inr s'"
  shows "call_global ''clearImmediate'' [h] (run es s') = Inr (clearTimeout [h] (run es s'))"
proof -
  have "clearTimeout [h] (run es s') = (VUndefined, snd (clearTimeout [h] (run es s')))"
    using clearTimeout_fst [of "[h]" "run es s'"] by (metis prod.collapse)
  then show ?thesis
    using setupTests_clearImmediate_shim [OF assms]
    by (auto simp: call_global_run call_ClearImmediateShim nth_arg_def)
qed

theorem clearImmediate_same_as_clearTimeout_witness:
  "typeof (global_get bare_process ''clearImmediate'') = ''undefined'' \<and>
   setupTests bare_process = Inr bare_loaded \<and>
   call_global ''clearImmediate'' [VTimer 0]
     (run [SetTimeout [VFunction 0, VNumber 5]] bare_loaded) =
     Inr (VUndefined, bare_loaded\<lparr>timers :=
       [\<lparr>callback = VFunction 0, delay = VNumber 5, args = [], status = Cancelled\<rparr>]\<rparr>)"
  using clearImmediate_same_as_clearTimeout [OF bare_undefined(2) setupTests_bare,
      of "VTimer 0" "[SetTimeout [VFunction 0, VNumber 5]]"]
    bare_undefined(2) setupTests_bare
  by (simp add: setTimeout_def clearTimeout_def pending_def nth_arg_def bare_loaded_def)

text \<open>
  C3. A global \<open>setImmediate\<close> (and likewise \<open>clearImmediate\<close>) that is defined
  before the load is the same binding after it, and no function object that existed
  before the load is touched: the module never replaces an existing implementation.
\<close>

theorem existing_globals_kept:
  assumes "setupTests s = Inr s'"
  shows "(typeof (global_get s ''setImmediate'') \<noteq> ''undefined'' \<longrightarrow>
            globals s' ''setImmediate'' = globals s ''setImmediate'') \<and>
         (typeof (global_get s ''clearImmediate'') \<noteq> ''undefined'' \<longrightarrow>
            globals s' ''clearImmediate'' = globals s ''clearImmediate'') \<and>
         take (length (funs s)) (funs s') = funs s"
proof -
  from assms obtain s1 s2 where s1: "import_jest_dom s = Inr s1"
    and s2: "install_clearImmediate s1 = Inr s2" and s': "install_setImmediate s2 = Inr s'"
    by (auto simp: setupTests_Inr)
  note fr = import_jest_dom_frame [OF s1]
  note c = install_clearImmediate_Inr [OF s2] and i = install_setImmediate_Inr [OF s']
  have si: "globals s' ''setImmediate'' = globals s ''setImmediate''"
    if "typeof (global_get s ''setImmediate'') \<noteq> ''undefined''"
  proof -
    have "global_get s2 ''setImmediate'' \<noteq> VUndefined"
      using that by (simp add: install_clearImmediate_get [OF s2] fr typeof_undefined_iff)
    with i have "s' = s2" by simp
    moreover have "globals s2 ''setImmediate'' = globals s1 ''setImmediate''"
      using c by (simp split: if_splits)
    ultimately show ?thesis by (simp add: fr)
  qed
  have ci: "globals s' ''clearImmediate'' = globals s ''clearImmediate''"
    if "typeof (global_get s ''clearImmediate'') \<noteq> ''undefined''"
  proof -
    have "global_get s1 ''clearImmediate'' \<noteq> VUndefined"
      using that by (simp add: fr typeof_undefined_iff)
    with c have "s2 = s1" by simp
    moreover have "globals s' ''clearImmediate'' = globals s2 ''clearImmediate''"
      using i by (simp split: if_splits)
    ultimately show ?thesis by (simp add: fr)
  qed
  have f: "take (length (funs s)) (funs s') = funs s"
    by (simp add: install_setImmediate_funs [OF s'] install_clearImmediate_funs [OF s2] fr)
  from si ci f show ?thesis by blast
qed

theorem existing_globals_kept_witness:
  "setupTests native_process = Inr native_loaded \<and>
   typeof (global_get native_process ''setImmediate'') \<noteq> ''undefined'' \<and>
   typeof (global_get native_process ''clearImmediate'') \<noteq> ''undefined'' \<and>
   globals native_loaded ''setImmediate'' = Some (VFunction 0) \<and>
   globals native_loaded ''clearImmediate'' = Some (VFunction 1) \<and>
   funs native_loaded = [External, External]"
  using existing_globals_kept [OF setupTests_native] setupTests_native native_defined
  by (simp add: native_process_def native_loaded_def)

text \<open>
  C4. In a process that has neither global, after the load both globals are functions,
  and \<open>clearImmediate(setImmediate(f))\<close>, called at any later moment \<open>t\<close> of the
  process, leaves the timer of \<open>f\<close> cancelled: whatever happens afterwards (turns of
  the event loop, on this timer too, and calls of the host's timer primitives), the
  callback of that timer is never run.
\<close>

theorem schedule_then_cancel_never_runs:
  assumes "typeof (global_get s ''setImmediate'') = ''undefined''"
    and "typeof (global_get s ''clearImmediate'') = ''undefined''"
    and "setupTests s = Inr s'"
    and "t = run pre s'" and "n = length (timers t)"
  shows "typeof (global_get s' ''setImmediate'') = ''function'' \<and>
         typeof (global_get s' ''clearImmediate'') = ''function'' \<and>
         (\<exists>s2 s3.
            call_global ''setImmediate'' [f] t = Inr (VTimer n, s2) \<and>
            callback (timers s2 ! n) = f \<and>
            call_global ''clearImmediate'' [VTimer n] s2 = Inr (VUndefined, s3) \<and>
            (\<forall>es. \<not> ran (run es s3) n))"
proof -
  note t_def = assms(4) and n_def = assms(5)
  define s2 where "s2 = snd (setTimeout [f, VNumber 0] t)"
  define s3 where "s3 = snd (clearTimeout [VTimer n] s2)"
  have ty: "typeof (global_get s' ''setImmediate'') = ''function''"
    "typeof (global_get s' ''clearImmediate'') = ''function''"
    using setupTests_setImmediate_shim [OF assms(1,3)]
      setupTests_clearImmediate_shim [OF assms(2,3)] by auto
  have "call_global ''setImmediate'' [f] t = Inr (setTimeout [f, VNumber 0] t)"
    unfolding t_def using call_setImmediate_loaded [OF assms(1,3), of "[f]" pre]
    by (simp add: nth_arg_def)
  then have c1: "call_global ''setImmediate'' [f] t = Inr (VTimer n, s2)"
    using setTimeout_fst [of "[f, VNumber 0]" t]
    by (simp add: n_def s2_def prod_eq_iff)
  have cb: "callback (timers s2 ! n) = f"
    unfolding s2_def n_def by (simp add: setTimeout_new_timer nth_arg_def)
  have s2_run: "s2 = run (pre @ [SetTimeout [f, VNumber 0]]) s'"
    unfolding s2_def t_def by (simp add: run_snoc_SetTimeout)
  have c2: "call_global ''clearImmediate'' [VTimer n] s2 = Inr (VUndefined, s3)"
    unfolding s2_run s3_def
    using call_clearImmediate_loaded
      [OF assms(2,3), of "[VTimer n]" "pre @ [SetTimeout [f, VNumber 0]]"]
    by (simp add: nth_arg_def)
  have "pending s2 n"
    unfolding s2_def n_def by (rule setTimeout_pending)
  then have "cancelled s3 n"
    unfolding s3_def by (rule clearTimeout_pending_cancelled)
  then have nr: "\<forall>es. \<not> ran (run es s3) n"
    by (simp add: run_cancelled cancelled_not_ran)
  from c1 cb c2 nr have "\<exists>s2 s3.
            call_global ''setImmediate'' [f] t = Inr (VTimer n, s2) \<and>
            callback (timers s2 ! n) = f \<and>
            call_global ''clearImmediate'' [VTimer n] s2 = Inr (VUndefined, s3) \<and>
            (\<forall>es. \<not> ran (run es s3) n)"
    by blast
  with ty show ?thesis by simp
qed

theorem schedule_then_cancel_never_runs_witness:
  "typeof (global_get bare_process ''setImmediate'') = ''undefined'' \<and>
   typeof (global_get bare_process ''clearImmediate'') = ''undefined'' \<and>
   setupTests bare_process = Inr bare_loaded \<and>
   typeof (global_get bare_loaded ''setImmediate'') = ''function'' \<and>
   typeof (global_get bare_loaded ''clearImmediate'') = ''function'' \<and>
   (\<exists>s2 s3.
      call_global ''setImmediate'' [VFunction 0] bare_loaded = Inr (VTimer 0, s2) \<and>
      call_global ''clearImmediate'' [VTimer 0] s2 = Inr (VUndefined, s3) \<and>
      \<not> ran (run [Turn 0, Turn 0] s3) 0)"
proof -
  from schedule_then_cancel_never_runs
    [where pre = "[]" and f = "VFunction 0",
      OF bare_undefined(1) bare_undefined(2) setupTests_bare refl refl]
  have "typeof (global_get bare_loaded ''setImmediate'') = ''function'' \<and>
        typeof (global_get bare_loaded ''clearImmediate'') = ''function'' \<and>
        (\<exists>s2 s3.
          call_global ''setImmediate'' [VFunction 0] bare_loaded = Inr (VTimer 0, s2) \<and>
          callback (timers s2 ! 0) = VFunction 0 \<and>
          call_global ''clearImmediate'' [VTimer 0] s2 = Inr (VUndefined, s3) \<and>
          (\<forall>es. \<not> ran (run es s3) 0))"
    unfolding bare_loaded_timers by simp
  then show ?thesis
    using bare_undefined setupTests_bare by blast
qed

text \<open>
  C5. Loading is idempotent: a second load of the module, on the state the first load
  left, succeeds and leaves exactly that state. The guards are evaluated again and find
  both globals defined, so no closure of the first load is replaced, and registering the
  matchers again raises no error and changes nothing.
\<close>

theorem setupTests_idempotent:
  assumes "setupTests s = Inr s1"
  shows "setupTests s1 = Inr s1"
proof -
  from assms obtain s0 s2 where s0: "import_jest_dom s = Inr s0"
    and s2: "install_clearImmediate s0 = Inr s2" and s1: "install_setImmediate s2 = Inr s1"
    by (auto simp: setupTests_Inr)
  from s0 obtain ms where ms: "node_modules s jest_dom = Some ms"
    and s0': "s0 = s\<lparr>matchers := matchers s ++ ms\<rparr>"
    by (auto simp: import_jest_dom_Inr)
  have nm: "node_modules s1 jest_dom = Some ms"
    by (simp add: install_setImmediate_frame [OF s1] install_clearImmediate_frame [OF s2]
        s0' ms)
  have "matchers s1 = matchers s ++ ms"
    by (simp add: install_setImmediate_frame [OF s1] install_clearImmediate_frame [OF s2] s0')
  then have "matchers s1 ++ ms = matchers s1"
    by (simp add: map_add_twice)
  with nm have imp: "import_jest_dom s1 = Inr s1"
    by (simp add: import_jest_dom_def)
  have c: "global_get s1 ''clearImmediate'' \<noteq> VUndefined"
    by (simp add: install_setImmediate_get [OF s1] install_clearImmediate_get [OF s2])
  have i: "global_get s1 ''setImmediate'' \<noteq> VUndefined"
    by (simp add: install_setImmediate_get [OF s1])
  show ?thesis
    by (simp add: setupTests_def imp install_clearImmediate_noop [OF c]
        install_setImmediate_noop [OF i])
qed

theorem setupTests_idempotent_witness:
  "setupTests bare_process = Inr bare_loaded \<and> setupTests bare_loaded = Inr bare_loaded"
  using setupTests_idempotent [OF setupTests_bare] setupTests_bare by simp

text \<open>
  C6. In a process whose global \<open>setImmediate\<close> is undefined, after the load a call
  \<open>setImmediate(f)\<close> runs no callback: it returns the handle \<open>n\<close> of a new pending
  timer that holds \<open>f\<close> with the delay zero. The callback is run only by a later turn
  of the event loop on that timer, and such a turn does run it. When the global
  \<open>clearImmediate\<close> was undefined before the load as well, the handle is usable with
  \<open>clearImmediate\<close>: the call succeeds and cancels the timer for good.
\<close>

theorem setImmediate_defers_callback:
  assumes "typeof (global_get s ''setImmediate'') = ''undefined''"
    and "setupTests s = Inr s'"
    and "t = run pre s'" and "n = length (timers t)"
  shows "\<exists>s2.
           call_global ''setImmediate'' [f] t = Inr (VTimer n, s2) \<and>
           (\<forall>k. ran s2 k = ran t k) \<and> \<not> ran s2 n \<and>
           pending s2 n \<and> callback (timers s2 ! n) = f \<and> delay (timers s2 ! n) = VNumber 0 \<and>
           (\<forall>es. ran (run es s2) n \<longrightarrow> Turn n \<in> set es) \<and>
           ran (fire n s2) n \<and>
           (typeof (global_get s ''clearImmediate'') = ''undefined'' \<longrightarrow>
              (\<exists>s3. call_global ''clearImmediate'' [VTimer n] s2 = Inr (VUndefined, s3) \<and>
                 cancelled s3 n \<and> (\<forall>es. \<not> ran (run es s3) n)))"
proof -
  note t_def = assms(3) and n_def = assms(4)
  define s2 where "s2 = snd (setTimeout [f, VNumber 0] t)"
  have "call_global ''setImmediate'' [f] t = Inr (setTimeout [f, VNumber 0] t)"
    unfolding t_def using call_setImmediate_loaded [OF assms(1,2), of "[f]" pre]
    by (simp add: nth_arg_def)
  then have c1: "call_global ''setImmediate'' [f] t = Inr (VTimer n, s2)"
    using setTimeout_fst [of "[f, VNumber 0]" t]
    by (simp add: n_def s2_def prod_eq_iff)
  have same: "\<forall>k. ran s2 k = ran t k"
    unfolding s2_def by (simp add: setTimeout_ran)
  have nr: "\<not> ran s2 n"
    unfolding s2_def n_def by (rule setTimeout_not_ran_new)
  have pe: "pending s2 n"
    unfolding s2_def n_def by (rule setTimeout_pending)
  have cb: "callback (timers s2 ! n) = f" and de: "delay (timers s2 ! n) = VNumber 0"
    unfolding s2_def n_def by (simp_all add: setTimeout_new_timer nth_arg_def)
  have later: "\<forall>es. ran (run es s2) n \<longrightarrow> Turn n \<in> set es"
    using run_ran [of _ s2 n] nr by blast
  have fires: "ran (fire n s2) n"
    using pe by (rule fire_pending_ran)
  have s2_run: "s2 = run (pre @ [SetTimeout [f, VNumber 0]]) s'"
    unfolding s2_def t_def by (simp add: run_snoc_SetTimeout)
  have glob: "typeof (global_get s ''clearImmediate'') = ''undefined'' \<longrightarrow>
              (\<exists>s3. call_global ''clearImmediate'' [VTimer n] s2 = Inr (VUndefined, s3) \<and>
                 cancelled s3 n \<and> (\<forall>es. \<not> ran (run es s3) n))"
  proof
    assume u: "typeof (global_get s ''clearImmediate'') = ''undefined''"
    define s3 where "s3 = snd (clearTimeout [VTimer n] s2)"
    have c2: "call_global ''clearImmediate'' [VTimer n] s2 = Inr (VUndefined, s3)"
      unfolding s2_run s3_def
      using call_clearImmediate_loaded
        [OF u assms(2), of "[VTimer n]" "pre @ [SetTimeout [f, VNumber 0]]"]
      by (simp add: nth_arg_def)
    have ca: "cancelled s3 n"
      unfolding s3_def using pe by (rule clearTimeout_pending_cancelled)
    then have "\<forall>es. \<not> ran (run es s3) n"
      by (simp add: run_cancelled cancelled_not_ran)
    with c2 ca show "\<exists>s3. call_global ''clearImmediate'' [VTimer n] s2 = Inr (VUndefined, s3) \<and>
                 cancelled s3 n \<and> (\<forall>es. \<not> ran (run es s3) n)"
      by blast
  qed
  show ?thesis
    apply (rule exI [of _ s2])
    apply (intro conjI)
            apply (rule c1)
           apply (rule same)
          apply (rule nr)
         apply (rule pe)
        apply (rule cb)
       apply (rule de)
      apply (rule later)
     apply (rule fires)
    apply (rule glob)
    done
qed

theorem setImmediate_defers_callback_witness:
  "typeof (global_get bare_process ''setImmediate'') = ''undefined'' \<and>
   typeof (global_get bare_process ''clearImmediate'') = ''undefined'' \<and>
   setupTests bare_process = Inr bare_loaded \<and>
   (\<exists>s2.
      call_global ''setImmediate'' [VFunction 0] bare_loaded = Inr (VTimer 0, s2) \<and>
      \<not> ran s2 0 \<and> pending s2 0 \<and> ran (run [Turn 0] s2) 0 \<and>
      (\<exists>s3. call_global ''clearImmediate'' [VTimer 0] s2 = Inr (VUndefined, s3) \<and>
         cancelled s3 0))"
proof -
  from setImmediate_defers_callback
    [where pre = "[]" and f = "VFunction 0",
      OF bare_undefined(1) setupTests_bare refl refl]
  have "\<exists>s2.
      call_global ''setImmediate'' [VFunction 0] bare_loaded = Inr (VTimer 0, s2) \<and>
      \<not> ran s2 0 \<and> pending s2 0 \<and> ran (fire 0 s2) 0 \<and>
      (\<exists>s3. call_global ''clearImmediate'' [VTimer 0] s2 = Inr (VUndefined, s3) \<and>
         cancelled s3 0)"
    unfolding bare_loaded_timers using bare_undefined(2) by auto
  then show ?thesis
    using bare_undefined setupTests_bare by simp
qed

text \<open>
  With \<open>setImmediate\<close> undefined alone the last part fails. The guards are
  independent: a \<open>clearImmediate\<close> that is already bound, here to \<open>null\<close>, is
  kept, and calling it with the handle that the installed \<open>setImmediate\<close> returned is
  a \<open>TypeError\<close>; the timer stays pending.
\<close>

theorem handle_unusable_with_existing_clearImmediate:
  "typeof (global_get null_clear_process ''setImmediate'') = ''undefined'' \<and>
   setupTests null_clear_process = Inr null_clear_loaded \<and>
   call_global ''setImmediate'' [VFunction 0] null_clear_loaded =
     Inr (VTimer 0, null_clear_scheduled) \<and>
   call_global ''clearImmediate'' [VTimer 0] null_clear_scheduled = Inl (NotAFunction VNull) \<and>
   pending null_clear_scheduled 0"
  by (simp add: setupTests_null_clear)
     (simp add: null_clear_process_def null_clear_loaded_def null_clear_scheduled_def
       global_get_def call_global_def call_function_def setImmediate_shim_def setTimeout_def
       nth_arg_def pending_def)



text \<open>
  C8. Under normal conditions, that is when neither global is undefined and at the same
  time not assignable, the load fails exactly when the import fails, with the import's
  own error and with nothing installed; the import fails exactly when the package cannot
  be found; and once the import has succeeded the two presence tests and assignments
  always produce a state.
\<close>

theorem import_is_the_only_failure:
  assumes "typeof (global_get s ''clearImmediate'') = ''undefined'' \<longrightarrow>
             ''clearImmediate'' \<notin> read_only s"
    and "typeof (global_get s ''setImmediate'') = ''undefined'' \<longrightarrow>
             ''setImmediate'' \<notin> read_only s"
  shows "(setupTests s = Inl x \<longleftrightarrow> import_jest_dom s = Inl x) \<and>
         ((\<exists>s'. setupTests s = Inr s') \<longleftrightarrow> (\<exists>s1. import_jest_dom s = Inr s1)) \<and>
         (import_jest_dom s = Inl x \<longleftrightarrow>
            node_modules s jest_dom = None \<and> x = (CannotFindModule jest_dom, s))"
proof -
  have ok: "\<exists>s'. setupTests s = Inr s'" if s1: "import_jest_dom s = Inr s1" for s1
  proof -
    note fr = import_jest_dom_frame [OF s1]
    have "\<exists>s2. install_clearImmediate s1 = Inr s2"
      using assms(1) by (simp add: install_clearImmediate_eq fr typeof_undefined_iff)
    then obtain s2 where s2: "install_clearImmediate s1 = Inr s2" ..
    have "global_get s2 ''setImmediate'' = global_get s ''setImmediate''"
      by (simp add: install_clearImmediate_get [OF s2] fr)
    moreover have "read_only s2 = read_only s"
      by (simp add: install_clearImmediate_frame [OF s2] fr)
    ultimately have "\<exists>s'. install_setImmediate s2 = Inr s'"
      using assms(2) by (simp add: install_setImmediate_eq typeof_undefined_iff)
    with s1 s2 show ?thesis by (auto simp: setupTests_Inr)
  qed
  have a: "setupTests s = Inl x \<longleftrightarrow> import_jest_dom s = Inl x"
  proof (cases "import_jest_dom s")
    case (Inl y)
    then show ?thesis by (simp add: setupTests_def)
  next
    case (Inr s1)
    with ok show ?thesis by fastforce
  qed
  have b: "(\<exists>s'. setupTests s = Inr s') \<longleftrightarrow> (\<exists>s1. import_jest_dom s = Inr s1)"
    using ok by (auto simp: setupTests_Inr)
  from a b show ?thesis by (simp add: import_jest_dom_Inl)
qed

theorem import_is_the_only_failure_witness:
  "''clearImmediate'' \<notin> read_only unprovisioned_process \<and>
   ''setImmediate'' \<notin> read_only unprovisioned_process \<and>
   node_modules unprovisioned_process jest_dom = None \<and>
   setupTests unprovisioned_process = Inl (CannotFindModule jest_dom, unprovisioned_process)"
  using import_is_the_only_failure
    [of unprovisioned_process "(CannotFindModule jest_dom, unprovisioned_process)"]
  by (simp add: unprovisioned_process_def)

text \<open>
  Without the condition the claim fails: with the package installed and a
  \<open>setImmediate\<close> that reads as undefined and cannot be assigned, the import
  succeeds and the assignment on line 15 throws a \<open>TypeError\<close>, which nothing
  catches.
\<close>

theorem installation_can_fail:
  "typeof (global_get locked_process ''setImmediate'') = ''undefined'' \<and>
   node_modules locked_process jest_dom \<noteq> None \<and>
   import_jest_dom locked_process \<noteq>
     Inl (ReadOnlyProperty ''setImmediate'', locked_aborted) \<and>
   setupTests locked_process = Inl (ReadOnlyProperty ''setImmediate'', locked_aborted)"
  by (simp add: setupTests_locked import_jest_dom_def)
     (simp add: locked_process_def global_get_def)

text \<open>
  C9. A load changes three places and nothing else. The import changes only the matcher
  registry, by one registration of the package's matchers; the first guarded assignment
  changes only the binding \<open>clearImmediate\<close>, the second only the binding
  \<open>setImmediate\<close>, each by at most one write of a newly allocated closure. Every
  other global binding, the timers, the installed packages, which properties can be
  assigned, and the function objects that existed before the load are unchanged.
\<close>

theorem setupTests_writes_three_places:
  assumes "setupTests s = Inr s'"
  shows "\<exists>s1 s2.
           import_jest_dom s = Inr s1 \<and> install_clearImmediate s1 = Inr s2 \<and>
           install_setImmediate s2 = Inr s' \<and>
           s1 = s\<lparr>matchers := matchers s1\<rparr> \<and>
           (s2 = s1 \<or>
            s2 = s1\<lparr>funs := funs s1 @ [ClearImmediateShim],
                    globals := (globals s1)(''clearImmediate'' \<mapsto> VFunction (length (funs s1)))\<rparr>) \<and>
           (s' = s2 \<or>
            s' = s2\<lparr>funs := funs s2 @ [SetImmediateShim],
                    globals := (globals s2)(''setImmediate'' \<mapsto> VFunction (length (funs s2)))\<rparr>) \<and>
           matchers s' = matchers s1 \<and>
           (\<exists>ms. node_modules s jest_dom = Some ms \<and> matchers s1 = matchers s ++ ms) \<and>
           timers s' = timers s \<and> node_modules s' = node_modules s \<and>
           read_only s' = read_only s \<and>
           (\<forall>k. k \<noteq> ''setImmediate'' \<and> k \<noteq> ''clearImmediate'' \<longrightarrow>
                globals s' k = globals s k) \<and>
           take (length (funs s)) (funs s') = funs s \<and>
           set (drop (length (funs s)) (funs s')) \<subseteq> {ClearImmediateShim, SetImmediateShim}"
proof -
  from assms obtain s1 s2 where s1: "import_jest_dom s = Inr s1"
    and s2: "install_clearImmediate s1 = Inr s2" and s': "install_setImmediate s2 = Inr s'"
    by (auto simp: setupTests_Inr)
  note fr = import_jest_dom_frame [OF s1]
  note fc = install_clearImmediate_frame [OF s2] and fs = install_setImmediate_frame [OF s']
  have a: "s1 = s\<lparr>matchers := matchers s1\<rparr>"
    using s1 by (auto simp: import_jest_dom_Inr)
  have b: "s2 = s1 \<or>
            s2 = s1\<lparr>funs := funs s1 @ [ClearImmediateShim],
                    globals := (globals s1)(''clearImmediate'' \<mapsto> VFunction (length (funs s1)))\<rparr>"
    using install_clearImmediate_Inr [OF s2] by (simp split: if_splits)
  have c: "s' = s2 \<or>
            s' = s2\<lparr>funs := funs s2 @ [SetImmediateShim],
                    globals := (globals s2)(''setImmediate'' \<mapsto> VFunction (length (funs s2)))\<rparr>"
    using install_setImmediate_Inr [OF s'] by (simp split: if_splits)
  have m1: "matchers s' = matchers s1" by (simp add: fs fc)
  have m2: "\<exists>ms. node_modules s jest_dom = Some ms \<and> matchers s1 = matchers s ++ ms"
    using s1 by (auto simp: import_jest_dom_Inr)
  have d1: "timers s' = timers s" by (simp add: fs fc fr)
  have d2: "node_modules s' = node_modules s" by (simp add: fs fc fr)
  have d3: "read_only s' = read_only s" by (simp add: fs fc fr)
  have e: "\<forall>k. k \<noteq> ''setImmediate'' \<and> k \<noteq> ''clearImmediate'' \<longrightarrow>
                globals s' k = globals s k"
  proof (intro allI impI)
    fix k :: string
    assume k: "k \<noteq> ''setImmediate'' \<and> k \<noteq> ''clearImmediate''"
    have "globals s2 k = globals s1 k"
      using install_clearImmediate_Inr [OF s2] k by (simp split: if_splits)
    moreover have "globals s' k = globals s2 k"
      using install_setImmediate_Inr [OF s'] k by (simp split: if_splits)
    ultimately show "globals s' k = globals s k" by (simp add: fr)
  qed
  have f: "funs s' = funs s @
      (if global_get s1 ''clearImmediate'' = VUndefined then [ClearImmediateShim] else []) @
      (if global_get s2 ''setImmediate'' = VUndefined then [SetImmediateShim] else [])"
    by (simp add: install_setImmediate_funs [OF s'] install_clearImmediate_funs [OF s2] fr)
  have g: "take (length (funs s)) (funs s') = funs s"
    by (simp add: f)
  have h: "set (drop (length (funs s)) (funs s')) \<subseteq> {ClearImmediateShim, SetImmediateShim}"
    by (auto simp: f)
  show ?thesis
    apply (rule exI [of _ s1])
    apply (rule exI [of _ s2])
    apply (intro conjI)
                 apply (rule s1)
                apply (rule s2)
               apply (rule s')
              apply (rule a)
             apply (rule b)
            apply (rule c)
           apply (rule m1)
          apply (rule m2)
         apply (rule d1)
        apply (rule d2)
       apply (rule d3)
      apply (rule e)
     apply (rule g)
    apply (rule h)
    done
qed

theorem setupTests_writes_three_places_witness:
  "setupTests bare_process = Inr bare_loaded \<and>
   timers bare_loaded = timers bare_process \<and>
   node_modules bare_loaded = node_modules bare_process \<and>
   read_only bare_loaded = read_only bare_process \<and>
   globals bare_loaded ''setTimeout'' = globals bare_process ''setTimeout'' \<and>
   take (length (funs bare_process)) (funs bare_loaded) = funs bare_process"
proof -
  from setupTests_writes_three_places [OF setupTests_bare]
  have "timers bare_loaded = timers bare_process \<and>
        node_modules bare_loaded = node_modules bare_process \<and>
        read_only bare_loaded = read_only bare_process \<and>
        (\<forall>k. k \<noteq> ''setImmediate'' \<and> k \<noteq> ''clearImmediate'' \<longrightarrow>
                globals bare_loaded k = globals bare_process k) \<and>
        take (length (funs bare_process)) (funs bare_loaded) = funs bare_process"
    by (elim exE conjE) (intro conjI, assumption+)
  then show ?thesis
    using setupTests_bare by simp
qed

text \<open>
  C10. The installed \<open>setImmediate\<close> ignores every argument after the callback: a call
  with extra arguments is the call without them, the timer it creates carries no
  argument, and the turn that fires the timer calls the callback with no argument.
  (The host's \<open>setTimeout\<close> would keep them: \<open>setTimeout_keeps_extra_arguments\<close>.)
\<close>

theorem setImmediate_drops_extra_arguments:
  assumes "typeof (global_get s ''setImmediate'') = ''undefined''"
    and "setupTests s = Inr s'"
    and "t = run pre s'" and "n = length (timers t)"
  shows "call_global ''setImmediate'' (f # extra) t = call_global ''setImmediate'' [f] t \<and>
         (\<exists>s2.
            call_global ''setImmediate'' (f # extra) t = Inr (VTimer n, s2) \<and>
            callback (timers s2 ! n) = f \<and> args (timers s2 ! n) = [] \<and>
            fire n s2 =
              run_callback f []
                (s2\<lparr>timers := (timers s2)[n := (timers s2 ! n)\<lparr>status := Fired\<rparr>]\<rparr>))"
proof -
  note t_def = assms(3) and n_def = assms(4)
  define s2 where "s2 = snd (setTimeout [f, VNumber 0] t)"
  have c: "call_global ''setImmediate'' (f # extra) t = Inr (setTimeout [f, VNumber 0] t)"
    unfolding t_def using call_setImmediate_loaded [OF assms(1,2), of "f # extra" pre]
    by (simp add: nth_arg_def)
  have c0: "call_global ''setImmediate'' [f] t = Inr (setTimeout [f, VNumber 0] t)"
    unfolding t_def using call_setImmediate_loaded [OF assms(1,2), of "[f]" pre]
    by (simp add: nth_arg_def)
  have c1: "call_global ''setImmediate'' (f # extra) t = Inr (VTimer n, s2)"
    using c setTimeout_fst [of "[f, VNumber 0]" t]
    by (simp add: n_def s2_def prod_eq_iff)
  have tm: "timers s2 ! n =
      \<lparr>callback = f, delay = VNumber 0, args = [], status = Pending\<rparr>"
    unfolding s2_def n_def by (simp add: setTimeout_new_timer nth_arg_def)
  have pe: "pending s2 n"
    unfolding s2_def n_def by (rule setTimeout_pending)
  have fi: "fire n s2 =
              run_callback f []
                (s2\<lparr>timers := (timers s2)[n := (timers s2 ! n)\<lparr>status := Fired\<rparr>]\<rparr>)"
    using pe by (simp add: fire_def Let_def tm)
  from c1 tm fi have "\<exists>s2.
            call_global ''setImmediate'' (f # extra) t = Inr (VTimer n, s2) \<and>
            callback (timers s2 ! n) = f \<and> args (timers s2 ! n) = [] \<and>
            fire n s2 =
              run_callback f []
                (s2\<lparr>timers := (timers s2)[n := (timers s2 ! n)\<lparr>status := Fired\<rparr>]\<rparr>)"
    by (intro exI [of _ s2]) simp
  with c c0 show ?thesis by simp
qed

theorem setImmediate_drops_extra_arguments_witness:
  "typeof (global_get bare_process ''setImmediate'') = ''undefined'' \<and>
   setupTests bare_process = Inr bare_loaded \<and>
   call_global ''setImmediate'' [VFunction 0, VNumber 7, VString ''x''] bare_loaded =
     call_global ''setImmediate'' [VFunction 0] bare_loaded \<and>
   (\<exists>s2.
      call_global ''setImmediate'' [VFunction 0, VNumber 7, VString ''x''] bare_loaded =
        Inr (VTimer 0, s2) \<and>
      args (timers s2 ! 0) = [])"
proof -
  from setImmediate_drops_extra_arguments
    [where pre = "[]" and f = "VFunction 0" and extra = "[VNumber 7, VString ''x'']",
      OF bare_undefined(1) setupTests_bare refl refl]
  have "call_global ''setImmediate'' [VFunction 0, VNumber 7, VString ''x''] bare_loaded =
     call_global ''setImmediate'' [VFunction 0] bare_loaded \<and>
   (\<exists>s2.
      call_global ''setImmediate'' [VFunction 0, VNumber 7, VString ''x''] bare_loaded =
        Inr (VTimer 0, s2) \<and>
      args (timers s2 ! 0) = [])"
    unfolding bare_loaded_timers run.simps(1) by blast
  then show ?thesis
    using bare_undefined(1) setupTests_bare by blast
qed

end
